theory Spec2Isabelle
  imports Main
begin

section \<open>SmtpSender: an SMTP message builder\<close>

text \<open>
  A shallow embedding of \<^verbatim>\<open>SJLTools/SMTPSender/SmtpSender.py\<close>: the class
  \<^verbatim>\<open>SmtpSender\<close> and the top-level function \<^verbatim>\<open>send_email_message\<close>.
  Python strings are \<^typ>\<open>string\<close>, Python lists are HOL lists, the object is a
  record that every method takes and returns, and a raised exception is a value.
  The collaborators of the module are parameters of the model: the file system read by
  \<^verbatim>\<open>attach_file\<close>, the local clock read by \<^verbatim>\<open>time.strftime\<close> and the
  SMTP session opened by \<^verbatim>\<open>smtplib.SMTP\<close>.
\<close>

subsection \<open>Library functions on strings\<close>

text \<open>
  \<^verbatim>\<open>str.split(sep)\<close> for a one-character separator: the pieces between the
  occurrences of the separator, empty pieces kept; the empty string gives one empty piece.
\<close>

fun split :: "char \<Rightarrow> string \<Rightarrow> string list" where
  "split sep [] = [[]]"
| "split sep (c # cs) =
     (if c = sep then [] # split sep cs
      else (case split sep cs of
              [] \<Rightarrow> [[c]]
            | w # ws \<Rightarrow> (c # w) # ws))"

text \<open>\<^verbatim>\<open>sep.join(xs)\<close>: the strings of the list with the separator between neighbours.\<close>

fun join :: "string \<Rightarrow> string list \<Rightarrow> string" where
  "join sep [] = []"
| "join sep [x] = x"
| "join sep (x # y # ys) = x @ sep @ join sep (y # ys)"

text \<open>\<^verbatim>\<open>os.path.basename\<close> (POSIX): what follows the last slash.\<close>

definition basename :: "string \<Rightarrow> string" where
  "basename p = rev (takeWhile (\<lambda>c. c \<noteq> CHR ''/'') (rev p))"

subsection \<open>The clock\<close>

text \<open>
  The fields of \<^verbatim>\<open>time.struct_time\<close> that the format \<^verbatim>\<open>'%Y-%m-%d %H:%M'\<close>
  reads. \<^verbatim>\<open>time.strftime\<close> with one argument formats the current local time, which
  the model takes as an argument.
\<close>

record struct_time =
  tm_year :: nat
  tm_mon :: nat
  tm_mday :: nat
  tm_hour :: nat
  tm_min :: nat

text \<open>The character of a digit; it is only ever applied to a number below ten.\<close>

definition digit :: "nat \<Rightarrow> char" where
  "digit d = ''0123456789'' ! d"

text \<open>A number in decimal, without padding.\<close>

fun decimal :: "nat \<Rightarrow> string" where
  "decimal n = (if n < 10 then [digit n] else decimal (n div 10) @ [digit (n mod 10)])"

declare decimal.simps [simp del]

definition zero_pad2 :: "nat \<Rightarrow> string" where
  "zero_pad2 n = (if n < 10 then ''0'' @ decimal n else decimal n)"

text \<open>
  \<^verbatim>\<open>time.strftime('%Y-%m-%d %H:%M')\<close>: the year as a decimal number, then month, day,
  hour and minute as zero-padded two-digit numbers.
\<close>

definition strftime_Ymd_HM :: "struct_time \<Rightarrow> string" where
  "strftime_Ymd_HM t =
     decimal (tm_year t) @ ''-'' @ zero_pad2 (tm_mon t) @ ''-'' @ zero_pad2 (tm_mday t)
       @ '' '' @ zero_pad2 (tm_hour t) @ '':'' @ zero_pad2 (tm_min t)"

subsection \<open>MIME messages\<close>

text \<open>
  A body part is a \<^verbatim>\<open>MIMEText(text, subtype)\<close> or a \<^verbatim>\<open>MIMEBase(maintype, subtype)\<close>
  with its payload and the header fields added to it with \<^verbatim>\<open>add_header\<close>. The payload
  of a \<^verbatim>\<open>MIMEBase\<close> part is kept as the bytes that \<^verbatim>\<open>encoders.encode_base64\<close>
  encodes; the encoding itself, and the content-type and transfer-encoding fields that the
  library writes into a part, belong to the library.
\<close>

datatype mime_part =
    MIMEText string string
  | MIMEBase string string string "(string \<times> string) list"

text \<open>
  \<^verbatim>\<open>MIMEMultipart(subtype)\<close>: the header fields assigned with \<^verbatim>\<open>msg[name] = value\<close>
  and the attached parts, both in order. The two fields the constructor writes itself
  (the content type \<^verbatim>\<open>multipart/subtype\<close> and the MIME version) are fixed by the subtype
  and are not listed. \<^verbatim>\<open>as_string()\<close> writes the header fields in this order and then
  the parts in this order; the model hands the structure itself to the transport.
\<close>

record MIMEMultipart =
  multipart_subtype :: string
  headers :: "(string \<times> string) list"
  payload :: "mime_part list"

definition new_MIMEMultipart :: "string \<Rightarrow> MIMEMultipart" where
  "new_MIMEMultipart st = \<lparr>multipart_subtype = st, headers = [], payload = []\<rparr>"

text \<open>\<^verbatim>\<open>msg[name] = value\<close> appends a header field; it replaces none.\<close>

definition set_item :: "string \<Rightarrow> string \<Rightarrow> MIMEMultipart \<Rightarrow> MIMEMultipart" where
  "set_item name v msg = msg\<lparr>headers := headers msg @ [(name, v)]\<rparr>"

definition attach :: "mime_part \<Rightarrow> MIMEMultipart \<Rightarrow> MIMEMultipart" where
  "attach part msg = msg\<lparr>payload := payload msg @ [part]\<rparr>"

subsection \<open>Exceptions\<close>

text \<open>
  The module raises plain \<^verbatim>\<open>Exception(message)\<close> itself. \<^verbatim>\<open>open\<close> and
  \<^verbatim>\<open>smtplib\<close> raise exceptions of the \<^verbatim>\<open>OSError\<close> family.
\<close>

datatype exn = Exception string | OSError string

subsection \<open>The class SmtpSender\<close>

text \<open>
  The attributes of an instance. \<^verbatim>\<open>sendFrom\<close>, \<^verbatim>\<open>subject\<close> and
  \<^verbatim>\<open>smtp_server\<close> are annotated \<^verbatim>\<open>str\<close> and the address lists
  \<^verbatim>\<open>List[str]\<close>, so the \<^verbatim>\<open>is None\<close> tests of \<^verbatim>\<open>send_email\<close> never hold
  on a value of these types and the model keeps the length tests.
\<close>

record SmtpSender =
  sendFrom :: string
  subject :: string
  smtp_server :: string
  to_addresses :: "string list"
  cc_addresses :: "string list"
  bcc_addresses :: "string list"
  recipients :: "string list"
  smtp_message :: MIMEMultipart
  html_header :: string
  text_parts :: "string list"
  html_parts :: "string list"

text \<open>The class attribute \<^verbatim>\<open>_template_html_header\<close>, character by character.\<close>

definition template_html_header :: string where
  \<open>template_html_header =
     '' \<newline>'' @
     ''        <style type="text/css">\<newline>'' @
     ''\<newline>'' @
     ''        .ExternalClass {\<newline>'' @
     ''            width: 100%;\<newline>'' @
     ''        }\<newline>'' @
     ''        .ExternalClass, .ExternalClass p, .ExternalClass span, .ExternalClass font, .ExternalClass td, .ExternalClass \<newline>'' @
     ''        div { line-height: 100%; }\<newline>'' @
     ''\<newline>'' @
     ''        body {\<newline>'' @
     ''            -webkit-text-size-adjust: none;\<newline>'' @
     ''            -ms-text-size-adjust: none;\<newline>'' @
     ''        }\<newline>'' @
     ''        /* Prevents Webkit and Windows Mobile platforms from changing default font sizes. */\<newline>'' @
     ''\<newline>'' @
     ''        * {\<newline>'' @
     ''            font-family: Arial, Helvetica, sans-serif;\<newline>'' @
     ''            font-size: 14px;\<newline>'' @
     ''        }\<newline>'' @
     ''\<newline>'' @
     ''        html,\<newline>'' @
     ''        body {\<newline>'' @
     ''            margin: 0;\<newline>'' @
     ''            padding: 0;\<newline>'' @
     ''            border: 0;\<newline>'' @
     ''            outline: 0;\<newline>'' @
     ''        }\<newline>'' @
     ''        /* Resets all body margins and padding to 0 for good measure */\<newline>'' @
     ''\<newline>'' @
     ''        table td {\<newline>'' @
     ''            border-collapse: collapse;\<newline>'' @
     ''            border-spacing: 0px;\<newline>'' @
     ''            border: 1px solid;\<newline>'' @
     ''            vertical-align: top;\<newline>'' @
     ''            padding: 2px;\<newline>'' @
     ''        }\<newline>'' @
     ''\<newline>'' @
     ''        body,\<newline>'' @
     ''        #body_style {\<newline>'' @
     ''            background: #fff;\<newline>'' @
     ''            min-height: 1000px;\<newline>'' @
     ''            color: #000;\<newline>'' @
     ''            font-family: Calibri, Arial, Helvetica, sans-serif;\<newline>'' @
     ''            font-size: 12px;\<newline>'' @
     ''        }\<newline>'' @
     ''\<newline>'' @
     ''        html,\<newline>'' @
     ''        body {\<newline>'' @
     ''            line-height: 1.2;\<newline>'' @
     ''        }\<newline>'' @
     ''        h1,\<newline>'' @
     ''        h2,\<newline>'' @
     ''        h3,\<newline>'' @
     ''        h4,\<newline>'' @
     ''        h5,\<newline>'' @
     ''        h6,\<newline>'' @
     ''        p,\<newline>'' @
     ''        i,\<newline>'' @
     ''        b,\<newline>'' @
     ''        a,\<newline>'' @
     ''        ul,\<newline>'' @
     ''        li,\<newline>'' @
     ''        blockquote,\<newline>'' @
     ''        hr,\<newline>'' @
     ''        img,\<newline>'' @
     ''        div,\<newline>'' @
     ''        span,\<newline>'' @
     ''        strong {\<newline>'' @
     ''            font-family: Calibri, Arial, Helvetica, sans-serif;\<newline>'' @
     ''            line-height: 1.2;\<newline>'' @
     ''            margin:0;\<newline>'' @
     ''            padding:0;\<newline>'' @
     ''            margin-top:1.5em;\<newline>'' @
     ''        }\<newline>'' @
     ''        h1,\<newline>'' @
     ''        h2,\<newline>'' @
     ''        h3,\<newline>'' @
     ''        h4,\<newline>'' @
     ''        h5,\<newline>'' @
     ''        h6 {\<newline>'' @
     ''            font-family: Calibri, Arial, Helvetica, sans-serif;\<newline>'' @
     ''            font-size: 18px;\<newline>'' @
     ''            color: black;\<newline>'' @
     ''        }\<newline>'' @
     ''        h1 {\<newline>'' @
     ''            font-family: Calibri, Arial, Helvetica, sans-serif;\<newline>'' @
     ''            font-size: 24px;\<newline>'' @
     ''            color: black;\<newline>'' @
     ''        }\<newline>'' @
     ''        /* A more sensible default for H1s */\<newline>'' @
     ''\<newline>'' @
     ''        a,\<newline>'' @
     ''        a:link {\<newline>'' @
     ''            color: #2A5DB0;\<newline>'' @
     ''            text-decoration: underline;\<newline>'' @
     ''        }\<newline>'' @
     ''\<newline>'' @
     ''        img {\<newline>'' @
     ''            display: block;\<newline>'' @
     ''            border: 0 none;\<newline>'' @
     ''            outline: none;\<newline>'' @
     ''            line-height: 100%;\<newline>'' @
     ''            outline: none;\<newline>'' @
     ''            text-decoration: none;\<newline>'' @
     ''            vertical-align: bottom;\<newline>'' @
     ''        }\<newline>'' @
     ''        a img {\<newline>'' @
     ''            border: 0 none;\<newline>'' @
     ''        }\<newline>'' @
     ''\<newline>'' @
     ''        small {\<newline>'' @
     ''            font-size: 11px;\<newline>'' @
     ''            line-height: 1.4;\<newline>'' @
     ''        }\<newline>'' @
     ''        small a {\<newline>'' @
     ''            color: inherit;\<newline>'' @
     ''            text-decoration: underline;\<newline>'' @
     ''        }\<newline>'' @
     ''        span.yshortcuts {\<newline>'' @
     ''            color: #000;\<newline>'' @
     ''            background-color: none;\<newline>'' @
     ''            border: none;\<newline>'' @
     ''        }\<newline>'' @
     ''        span.yshortcuts:hover,\<newline>'' @
     ''        span.yshortcuts:active,\<newline>'' @
     ''        span.yshortcuts:focus {\<newline>'' @
     ''            color: #000;\<newline>'' @
     ''            background-color: none;\<newline>'' @
     ''            border: none;\<newline>'' @
     ''        }\<newline>'' @
     ''\<newline>'' @
     ''        /*Optional:*/\<newline>'' @
     ''\<newline>'' @
     ''        a:visited {\<newline>'' @
     ''            color: #3c96e2;\<newline>'' @
     ''            text-decoration: none\<newline>'' @
     ''        }\<newline>'' @
     ''        a:focus {\<newline>'' @
     ''            color: #3c96e2;\<newline>'' @
     ''            text-decoration: underline\<newline>'' @
     ''        }\<newline>'' @
     ''        a:hover {\<newline>'' @
     ''            color: #3c96e2;\<newline>'' @
     ''            text-decoration: underline\<newline>'' @
     ''        }\<newline>'' @
     ''        </style>\<newline>'' @
     ''        ''\<close>

definition add_to_line_address :: "string \<Rightarrow> SmtpSender \<Rightarrow> SmtpSender" where
  "add_to_line_address address self =
     self\<lparr>to_addresses := to_addresses self @ split CHR '','' address,
          recipients := recipients self @ split CHR '','' address\<rparr>"

definition add_cc_line_address :: "string \<Rightarrow> SmtpSender \<Rightarrow> SmtpSender" where
  "add_cc_line_address address self =
     self\<lparr>cc_addresses := cc_addresses self @ split CHR '','' address,
          recipients := recipients self @ split CHR '','' address\<rparr>"

definition add_bcc_line_address :: "string \<Rightarrow> SmtpSender \<Rightarrow> SmtpSender" where
  "add_bcc_line_address address self =
     self\<lparr>bcc_addresses := bcc_addresses self @ split CHR '','' address,
          recipients := recipients self @ split CHR '','' address\<rparr>"

definition add_plain_text :: "string \<Rightarrow> SmtpSender \<Rightarrow> SmtpSender" where
  "add_plain_text plain_text self = self\<lparr>text_parts := text_parts self @ [plain_text]\<rparr>"

definition add_html_text :: "string \<Rightarrow> string option \<Rightarrow> SmtpSender \<Rightarrow> SmtpSender" where
  "add_html_text html_text style_text self =
     (let self1 =
        (if length (html_header self) = 0 then
           (case style_text of
              None \<Rightarrow> self\<lparr>html_header := template_html_header\<rparr>
            | Some st \<Rightarrow> self\<lparr>html_header := st\<rparr>)
         else self)
      in self1\<lparr>html_parts := html_parts self1 @ [html_text]\<rparr>)"

text \<open>
  \<^verbatim>\<open>attach_file\<close>: the file system is a map from paths to the bytes read; a path it
  does not map makes \<^verbatim>\<open>open\<close> raise, before the message is touched.
\<close>

definition file_part :: "string \<Rightarrow> string \<Rightarrow> mime_part" where
  "file_part file_name bytes =
     MIMEBase ''application'' ''octet-stream'' bytes
       [(''Content-Disposition'', ''attachment; filename= '' @ file_name)]"

definition attach_file :: "(string \<Rightarrow> string option) \<Rightarrow> string \<Rightarrow> SmtpSender \<Rightarrow> exn + SmtpSender" where
  "attach_file fs file_path self =
     (let file_name = basename file_path in
      case fs file_path of
        None \<Rightarrow> Inl (OSError file_path)
      | Some bytes \<Rightarrow>
          Inr (self\<lparr>smtp_message := attach (file_part file_name bytes) (smtp_message self)\<rparr>))"

text \<open>The property setters: the list is replaced by a copy, the copy is appended to the recipients.\<close>

definition set_to_addresses :: "string list \<Rightarrow> SmtpSender \<Rightarrow> SmtpSender" where
  "set_to_addresses v self =
     (let self1 = self\<lparr>to_addresses := v\<rparr>
      in self1\<lparr>recipients := recipients self1 @ to_addresses self1\<rparr>)"

definition set_cc_addresses :: "string list \<Rightarrow> SmtpSender \<Rightarrow> SmtpSender" where
  "set_cc_addresses v self =
     (let self1 = self\<lparr>cc_addresses := v\<rparr>
      in self1\<lparr>recipients := recipients self1 @ cc_addresses self1\<rparr>)"

definition set_bcc_addresses :: "string list \<Rightarrow> SmtpSender \<Rightarrow> SmtpSender" where
  "set_bcc_addresses v self =
     (let self1 = self\<lparr>bcc_addresses := v\<rparr>
      in self1\<lparr>recipients := recipients self1 @ bcc_addresses self1\<rparr>)"

text \<open>
  The constructor. The positional arguments are strings; argument \<open>i\<close> is handled by
  the branch of the loop for index \<open>i\<close>, and an argument after the seventh is ignored.
  \<^verbatim>\<open>_recipients\<close> is a list when the BCC addresses are added (never \<^verbatim>\<open>None\<close>), so
  they extend it.
\<close>

definition new_attributes :: SmtpSender where
  "new_attributes =
     \<lparr>sendFrom = ''do-not-reply@somewhere.org'',
      subject = [],
      smtp_server = ''smtp.host.address'',
      to_addresses = [],
      cc_addresses = [],
      bcc_addresses = [],
      recipients = [],
      smtp_message = new_MIMEMultipart ''alternative'',
      html_header = [],
      text_parts = [],
      html_parts = []\<rparr>"

fun init_arg ::
  "nat \<Rightarrow> string \<Rightarrow> SmtpSender \<times> string list option \<times> string list option
     \<Rightarrow> SmtpSender \<times> string list option \<times> string list option" where
  "init_arg i a (self, to_list, bcc_list) =
     (if i = 0 then (add_plain_text a self, to_list, bcc_list)
      else if i = 1 then (add_html_text a None self, to_list, bcc_list)
      else if i = 2 then (self\<lparr>subject := a\<rparr>, to_list, bcc_list)
      else if i = 3 then (self, Some (split CHR '','' a), bcc_list)
      else if i = 4 then (self, to_list, Some (split CHR '','' a))
      else if i = 5 then (self\<lparr>sendFrom := a\<rparr>, to_list, bcc_list)
      else if i = 6 then (self\<lparr>smtp_server := a\<rparr>, to_list, bcc_list)
      else (self, to_list, bcc_list))"

definition SmtpSender_init :: "string list \<Rightarrow> SmtpSender" where
  "SmtpSender_init args =
     (case fold (\<lambda>i. init_arg i (args ! i)) [0..<length args] (new_attributes, None, None) of
        (self, to_list, bcc_list) \<Rightarrow>
          (let self1 =
             (case to_list of
                None \<Rightarrow> self
              | Some l \<Rightarrow>
                  if length l = 0 then self else self\<lparr>recipients := l, to_addresses := l\<rparr>);
               self2 =
             (case bcc_list of
                None \<Rightarrow> self1
              | Some l \<Rightarrow>
                  if length l = 0 then self1
                  else self1\<lparr>recipients := recipients self1 @ l, bcc_addresses := l\<rparr>)
           in self2))"

subsection \<open>Sending\<close>

text \<open>
  One use of the transport: the \<^verbatim>\<open>with smtplib.SMTP(host) as s: s.sendmail(...)\<close>
  block, with the host and the three arguments of \<^verbatim>\<open>sendmail\<close>. The transport is a
  function of the model: it answers \<open>None\<close> when the session succeeds and the
  description of the error it raises otherwise.
\<close>

record delivery =
  host :: string
  mail_from :: string
  rcpt_to :: "string list"
  message :: MIMEMultipart

text \<open>
  What a call leaves behind: the object as it is after the call (an exception keeps the
  mutations made before it), the uses of the transport, and the exception raised, if any.
\<close>

record send_result =
  sender :: SmtpSender
  transport_calls :: "delivery list"
  raised :: "exn option"

definition raise :: "SmtpSender \<Rightarrow> exn \<Rightarrow> send_result" where
  "raise self e = \<lparr>sender = self, transport_calls = [], raised = Some e\<rparr>"

text \<open>
  The body of \<^verbatim>\<open>send_email\<close> after its assertions, block by block as the source
  comments them. "Optional subject line timestamp":
\<close>

definition subject_timestamp :: "struct_time \<Rightarrow> bool \<Rightarrow> SmtpSender \<Rightarrow> SmtpSender" where
  "subject_timestamp now enable_subj_timestamp self =
     (let timestamp_str = strftime_Ymd_HM now in
      if enable_subj_timestamp
      then self\<lparr>subject := subject self @ '' '' @ timestamp_str\<rparr>
      else self)"

text \<open>"Set SMTP header fields (no BCC header by design)":\<close>

definition set_header_fields :: "SmtpSender \<Rightarrow> SmtpSender" where
  "set_header_fields self =
     (let msg1 = set_item ''Subject'' (subject self) (smtp_message self);
          msg2 = set_item ''From'' (sendFrom self) msg1;
          msg3 = set_item ''To'' (join '','' (to_addresses self)) msg2;
          msg4 = (if length (cc_addresses self) > 0
                  then set_item ''Cc'' (join '','' (cc_addresses self)) msg3
                  else msg3)
      in self\<lparr>smtp_message := msg4\<rparr>)"

text \<open>"Add plain text message content, if any":\<close>

definition attach_text_content :: "SmtpSender \<Rightarrow> SmtpSender" where
  "attach_text_content self =
     (if length (text_parts self) > 0
      then (let text_part = MIMEText (join ''\<newline>'' (text_parts self)) ''plain''
            in self\<lparr>smtp_message := attach text_part (smtp_message self)\<rparr>)
      else self)"

text \<open>"Add html text message content, if any":\<close>

definition attach_html_content :: "SmtpSender \<Rightarrow> SmtpSender" where
  "attach_html_content self =
     (if length (html_parts self) > 0
      then (let html_part =
                  MIMEText (html_header self @ ''<BR>'' @ join [] (html_parts self)) ''html''
            in self\<lparr>smtp_message := attach html_part (smtp_message self)\<rparr>)
      else self)"

text \<open>"Send the message to all recipients including BCC addresses":\<close>

definition sendmail :: "(delivery \<Rightarrow> string option) \<Rightarrow> SmtpSender \<Rightarrow> send_result" where
  "sendmail smtp self =
     (let d = \<lparr>host = smtp_server self, mail_from = sendFrom self,
               rcpt_to = recipients self, message = smtp_message self\<rparr>
      in \<lparr>sender = self, transport_calls = [d], raised = map_option OSError (smtp d)\<rparr>)"

definition send_email ::
  "(delivery \<Rightarrow> string option) \<Rightarrow> struct_time \<Rightarrow> bool \<Rightarrow> SmtpSender \<Rightarrow> send_result" where
  "send_email smtp now enable_subj_timestamp self =
     (if length (to_addresses self) = 0 then
        raise self (Exception ''An SMTP message must have a To: line address to be sent.'')
      else if length (sendFrom self) = 0 then
        raise self (Exception ''An SMTP message must have a From: line address to be sent.'')
      else if length (smtp_server self) = 0 then
        raise self (Exception ''An SMTP message must have an SMTP host address to be sent.'')
      else
        sendmail smtp
          (attach_html_content
            (attach_text_content
              (set_header_fields
                (subject_timestamp now enable_subj_timestamp self)))))"

subsection \<open>The function send_email_message\<close>

text \<open>
  An address argument as Python sees it: \<^verbatim>\<open>None\<close>, a \<^verbatim>\<open>str\<close>, a \<^verbatim>\<open>list\<close> (of
  strings, as annotated), or an object of any other type. \<^verbatim>\<open>None\<close> is the default of
  the optional \<^verbatim>\<open>cc_addresses\<close> and \<^verbatim>\<open>bcc_addresses\<close>: an argument that is not given.
\<close>

datatype pyobj = PyNone | PyStr string | PyList "string list" | PyOther

definition address_list :: "pyobj \<Rightarrow> string list option" where
  "address_list a =
     (case a of
        PyStr s \<Rightarrow> Some (split CHR '','' s)
      | PyList l \<Rightarrow> Some l
      | _ \<Rightarrow> None)"

definition send_email_message ::
  "(delivery \<Rightarrow> string option) \<Rightarrow> struct_time \<Rightarrow> pyobj \<Rightarrow> string \<Rightarrow> string \<Rightarrow> string option
     \<Rightarrow> string option \<Rightarrow> pyobj \<Rightarrow> pyobj \<Rightarrow> send_result" where
  "send_email_message smtp now to_arg subject_arg html_text style from_address cc_arg bcc_arg =
     (let msg = SmtpSender_init [] in
      case address_list to_arg of
        None \<Rightarrow> raise msg (Exception ''Address list for To line not recognized'')
      | Some to_list \<Rightarrow>
          (let msg1 = set_to_addresses to_list msg in
           case (if cc_arg \<noteq> PyNone then
                   (case address_list cc_arg of
                      None \<Rightarrow> Inl (Exception ''Address list for Cc line not recognized'')
                    | Some cc_list \<Rightarrow> Inr (set_cc_addresses cc_list msg1))
                 else Inr msg1) of
             Inl e \<Rightarrow> raise msg1 e
           | Inr msg2 \<Rightarrow>
               (case (if bcc_arg \<noteq> PyNone then
                        (case address_list bcc_arg of
                           None \<Rightarrow> Inl (Exception ''BCC address list not recognized'')
                         | Some bcc_list \<Rightarrow> Inr (set_bcc_addresses bcc_list msg2))
                      else Inr msg2) of
                  Inl e \<Rightarrow> raise msg2 e
                | Inr msg3 \<Rightarrow>
                    (let msg4 = (case from_address of
                                   None \<Rightarrow> msg3
                                 | Some f \<Rightarrow> msg3\<lparr>sendFrom := f\<rparr>);
                         msg5 = msg4\<lparr>subject := subject_arg\<rparr>;
                         msg6 = add_html_text html_text style msg5
                     in send_email smtp now True msg6))))"

subsection \<open>Sequences of calls on one object\<close>

text \<open>
  The calls a client makes on an instance before it sends: the methods, the three property
  setters and the assignments to the public attributes. A sequence of calls runs in order
  and ends at the first exception.
\<close>

datatype call =
    Add_to_line_address string
  | Add_cc_line_address string
  | Add_bcc_line_address string
  | Add_plain_text string
  | Add_html_text string "string option"
  | Attach_file string
  | Set_to_addresses "string list"
  | Set_cc_addresses "string list"
  | Set_bcc_addresses "string list"
  | Set_sendFrom string
  | Set_subject string
  | Set_smtp_server string

fun exec :: "(string \<Rightarrow> string option) \<Rightarrow> call \<Rightarrow> SmtpSender \<Rightarrow> exn + SmtpSender" where
  "exec fs (Add_to_line_address a) self = Inr (add_to_line_address a self)"
| "exec fs (Add_cc_line_address a) self = Inr (add_cc_line_address a self)"
| "exec fs (Add_bcc_line_address a) self = Inr (add_bcc_line_address a self)"
| "exec fs (Add_plain_text t) self = Inr (add_plain_text t self)"
| "exec fs (Add_html_text t st) self = Inr (add_html_text t st self)"
| "exec fs (Attach_file p) self = attach_file fs p self"
| "exec fs (Set_to_addresses v) self = Inr (set_to_addresses v self)"
| "exec fs (Set_cc_addresses v) self = Inr (set_cc_addresses v self)"
| "exec fs (Set_bcc_addresses v) self = Inr (set_bcc_addresses v self)"
| "exec fs (Set_sendFrom v) self = Inr (self\<lparr>sendFrom := v\<rparr>)"
| "exec fs (Set_subject v) self = Inr (self\<lparr>subject := v\<rparr>)"
| "exec fs (Set_smtp_server v) self = Inr (self\<lparr>smtp_server := v\<rparr>)"

fun run :: "(string \<Rightarrow> string option) \<Rightarrow> call list \<Rightarrow> SmtpSender \<Rightarrow> exn + SmtpSender" where
  "run fs [] self = Inr self"
| "run fs (c # cs) self =
     (case exec fs c self of
        Inl e \<Rightarrow> Inl e
      | Inr self1 \<Rightarrow> run fs cs self1)"

subsection \<open>What a sequence of calls contributes\<close>

text \<open>
  Read off a call: the address tokens it appends to the recipients, those among them that
  are BCC addresses, the text and HTML fragments it adds, the stylesheet header it offers,
  and the part it attaches.
\<close>

fun recipient_tokens :: "call \<Rightarrow> string list" where
  "recipient_tokens (Add_to_line_address a) = split CHR '','' a"
| "recipient_tokens (Add_cc_line_address a) = split CHR '','' a"
| "recipient_tokens (Add_bcc_line_address a) = split CHR '','' a"
| "recipient_tokens (Set_to_addresses v) = v"
| "recipient_tokens (Set_cc_addresses v) = v"
| "recipient_tokens (Set_bcc_addresses v) = v"
| "recipient_tokens _ = []"

fun bcc_tokens :: "call \<Rightarrow> string list" where
  "bcc_tokens (Add_bcc_line_address a) = split CHR '','' a"
| "bcc_tokens (Set_bcc_addresses v) = v"
| "bcc_tokens _ = []"

fun plain_fragments :: "call \<Rightarrow> string list" where
  "plain_fragments (Add_plain_text t) = [t]"
| "plain_fragments _ = []"

fun html_fragments :: "call \<Rightarrow> string list" where
  "html_fragments (Add_html_text t st) = [t]"
| "html_fragments _ = []"

fun offered_headers :: "call \<Rightarrow> string list" where
  "offered_headers (Add_html_text t None) = [template_html_header]"
| "offered_headers (Add_html_text t (Some st)) = [st]"
| "offered_headers _ = []"

fun attachments :: "(string \<Rightarrow> string option) \<Rightarrow> call \<Rightarrow> mime_part list" where
  "attachments fs (Attach_file p) =
     (case fs p of None \<Rightarrow> [] | Some bytes \<Rightarrow> [file_part (basename p) bytes])"
| "attachments fs _ = []"

subsection \<open>Vocabulary of the properties\<close>

text \<open>A body part that is a \<^verbatim>\<open>MIMEText\<close> of the given subtype.\<close>

fun is_text_part :: "string \<Rightarrow> mime_part \<Rightarrow> bool" where
  "is_text_part st (MIMEText body st') = (st' = st)"
| "is_text_part st (MIMEBase mt st' bytes hs) = False"

text \<open>The shape \<^verbatim>\<open>YYYY-MM-DD HH:MM\<close>: sixteen characters, digits but for the separators.\<close>

definition is_digit :: "char \<Rightarrow> bool" where
  "is_digit c = (c \<in> set ''0123456789'')"

definition matches_Ymd_HM :: "string \<Rightarrow> bool" where
  "matches_Ymd_HM s =
     (length s = 16 \<and>
      list_all is_digit (take 4 s) \<and> s ! 4 = CHR ''-'' \<and>
      list_all is_digit (take 2 (drop 5 s)) \<and> s ! 7 = CHR ''-'' \<and>
      list_all is_digit (take 2 (drop 8 s)) \<and> s ! 10 = CHR '' '' \<and>
      list_all is_digit (take 2 (drop 11 s)) \<and> s ! 13 = CHR '':'' \<and>
      list_all is_digit (drop 14 s))"

text \<open>
  Concrete collaborators for the examples: a file system with one file, a transport that
  succeeds, a transport that fails, and two readings of the clock.
\<close>

definition example_fs :: "string \<Rightarrow> string option" where
  "example_fs = [''/tmp/report.txt'' \<mapsto> ''data'']"

definition smtp_ok :: "delivery \<Rightarrow> string option" where
  "smtp_ok d = None"

definition smtp_down :: "delivery \<Rightarrow> string option" where
  "smtp_down d = Some ''Connection refused''"

definition example_now :: struct_time where
  "example_now = \<lparr>tm_year = 2024, tm_mon = 3, tm_mday = 9, tm_hour = 7, tm_min = 5\<rparr>"

definition example_later :: struct_time where
  "example_later = \<lparr>tm_year = 2024, tm_mon = 3, tm_mday = 9, tm_hour = 7, tm_min = 6\<rparr>"

section \<open>Properties\<close>

subsection \<open>Strings\<close>

lemma template_html_header_nonempty: "template_html_header \<noteq> []"
  by (simp add: template_html_header_def)

lemma split_nonempty: "split sep s \<noteq> []"
  by (induction s) (auto split: list.splits)

lemma join_empty_sep: "join [] xs = concat xs"
  by (induction "[]::string" xs rule: join.induct) auto

subsection \<open>Calls and sequences of calls\<close>

lemmas call_defs =
  add_to_line_address_def add_cc_line_address_def add_bcc_line_address_def
  add_plain_text_def add_html_text_def attach_file_def
  set_to_addresses_def set_cc_addresses_def set_bcc_addresses_def attach_def

lemma exec_recipients:
  "exec fs c s = Inr s' \<Longrightarrow> recipients s' = recipients s @ recipient_tokens c"
  by (cases c) (auto simp: call_defs Let_def split: option.splits if_splits)

lemma run_recipients:
  "run fs cs s = Inr s' \<Longrightarrow> recipients s' = recipients s @ concat (map recipient_tokens cs)"
proof (induction cs arbitrary: s)
  case Nil
  then show ?case by simp
next
  case (Cons c cs)
  then obtain s1 where c: "exec fs c s = Inr s1" and r: "run fs cs s1 = Inr s'"
    by (auto split: sum.splits)
  show ?case using exec_recipients[OF c] Cons.IH[OF r] by simp
qed

lemma exec_payload:
  "exec fs c s = Inr s' \<Longrightarrow>
     payload (smtp_message s') = payload (smtp_message s) @ attachments fs c \<and>
     headers (smtp_message s') = headers (smtp_message s) \<and>
     multipart_subtype (smtp_message s') = multipart_subtype (smtp_message s)"
  by (cases c) (auto simp: call_defs Let_def split: option.splits if_splits)

lemma run_payload:
  "run fs cs s = Inr s' \<Longrightarrow>
     payload (smtp_message s') = payload (smtp_message s) @ concat (map (attachments fs) cs) \<and>
     headers (smtp_message s') = headers (smtp_message s) \<and>
     multipart_subtype (smtp_message s') = multipart_subtype (smtp_message s)"
proof (induction cs arbitrary: s)
  case Nil
  then show ?case by simp
next
  case (Cons c cs)
  then obtain s1 where c: "exec fs c s = Inr s1" and r: "run fs cs s1 = Inr s'"
    by (auto split: sum.splits)
  show ?case using exec_payload[OF c] Cons.IH[OF r] by simp
qed

lemma exec_parts:
  "exec fs c s = Inr s' \<Longrightarrow>
     text_parts s' = text_parts s @ plain_fragments c \<and>
     html_parts s' = html_parts s @ html_fragments c"
  by (cases c) (auto simp: call_defs Let_def split: option.splits if_splits)

lemma run_parts:
  "run fs cs s = Inr s' \<Longrightarrow>
     text_parts s' = text_parts s @ concat (map plain_fragments cs) \<and>
     html_parts s' = html_parts s @ concat (map html_fragments cs)"
proof (induction cs arbitrary: s)
  case Nil
  then show ?case by simp
next
  case (Cons c cs)
  then obtain s1 where c: "exec fs c s = Inr s1" and r: "run fs cs s1 = Inr s'"
    by (auto split: sum.splits)
  show ?case using exec_parts[OF c] Cons.IH[OF r] by simp
qed

lemma exec_html_header:
  "exec fs c s = Inr s' \<Longrightarrow>
     html_header s' =
       (if html_header s \<noteq> [] then html_header s
        else (case offered_headers c of [] \<Rightarrow> [] | h # _ \<Rightarrow> h))"
  by (cases c rule: offered_headers.cases)
     (auto simp: call_defs Let_def split: option.splits if_splits)

lemma run_html_header:
  "run fs cs s = Inr s' \<Longrightarrow>
     html_header s' =
       (if html_header s \<noteq> [] then html_header s
        else (case filter (\<lambda>h. h \<noteq> []) (concat (map offered_headers cs)) of
                [] \<Rightarrow> [] | h # _ \<Rightarrow> h))"
proof (induction cs arbitrary: s)
  case Nil
  then show ?case by simp
next
  case (Cons c cs)
  then obtain s1 where c: "exec fs c s = Inr s1" and r: "run fs cs s1 = Inr s'"
    by (auto split: sum.splits)
  show ?case using exec_html_header[OF c] Cons.IH[OF r]
    by (cases c rule: offered_headers.cases) (auto split: list.splits)
qed

lemma exec_bcc:
  "exec fs c s = Inr s' \<Longrightarrow>
     set (bcc_addresses s') \<subseteq> set (bcc_addresses s) \<union> set (bcc_tokens c) \<and>
     set (bcc_tokens c) \<subseteq> set (recipient_tokens c)"
  by (cases c) (auto simp: call_defs Let_def split: option.splits if_splits)

lemma run_bcc:
  "run fs cs s = Inr s' \<Longrightarrow> set (bcc_addresses s) \<subseteq> set (recipients s) \<Longrightarrow>
     set (bcc_addresses s') \<subseteq> set (recipients s')"
proof (induction cs arbitrary: s)
  case Nil
  then show ?case by simp
next
  case (Cons c cs)
  then obtain s1 where c: "exec fs c s = Inr s1" and r: "run fs cs s1 = Inr s'"
    by (auto split: sum.splits)
  have "set (bcc_addresses s1) \<subseteq> set (recipients s1)"
    using exec_bcc[OF c] exec_recipients[OF c] Cons.prems(2) by auto
  then show ?case using Cons.IH[OF r] by simp
qed

subsection \<open>The constructor\<close>

lemma init_arg_message:
  "smtp_message (fst (init_arg i a st)) = smtp_message (fst st)"
  by (cases st) (simp add: add_plain_text_def add_html_text_def Let_def split: option.splits)

lemma fold_init_arg_message:
  "smtp_message (fst (fold (\<lambda>i. init_arg i (f i)) is st)) = smtp_message (fst st)"
  by (induction "is" arbitrary: st) (simp_all add: init_arg_message)

lemma SmtpSender_init_message:
  "smtp_message (SmtpSender_init args) = new_MIMEMultipart ''alternative''"
proof -
  obtain s tl bl where f:
    "fold (\<lambda>i. init_arg i (args ! i)) [0..<length args] (new_attributes, None, None) = (s, tl, bl)"
    by (cases "fold (\<lambda>i. init_arg i (args ! i)) [0..<length args] (new_attributes, None, None)") auto
  have "smtp_message s = smtp_message new_attributes"
    using fold_init_arg_message[of "\<lambda>i. args ! i" "[0..<length args]" "(new_attributes, None, None)"] f
    by simp
  then have "smtp_message s = new_MIMEMultipart ''alternative''"
    by (simp add: new_attributes_def)
  then show ?thesis
    by (simp add: SmtpSender_init_def f Let_def split: option.splits)
qed

lemma init_arg_bcc:
  "bcc_addresses (fst (init_arg i a st)) = bcc_addresses (fst st)"
  by (cases st) (simp add: add_plain_text_def add_html_text_def Let_def split: option.splits)

lemma fold_init_arg_bcc:
  "bcc_addresses (fst (fold (\<lambda>i. init_arg i (f i)) is st)) = bcc_addresses (fst st)"
  by (induction "is" arbitrary: st) (simp_all add: init_arg_bcc)

lemma SmtpSender_init_bcc:
  "set (bcc_addresses (SmtpSender_init args)) \<subseteq> set (recipients (SmtpSender_init args))"
proof -
  obtain s tl bl where f:
    "fold (\<lambda>i. init_arg i (args ! i)) [0..<length args] (new_attributes, None, None) = (s, tl, bl)"
    by (cases "fold (\<lambda>i. init_arg i (args ! i)) [0..<length args] (new_attributes, None, None)") auto
  have "bcc_addresses s = bcc_addresses new_attributes"
    using fold_init_arg_bcc[of "\<lambda>i. args ! i" "[0..<length args]" "(new_attributes, None, None)"] f
    by simp
  then have "bcc_addresses s = []"
    by (simp add: new_attributes_def)
  then show ?thesis
    by (auto simp: SmtpSender_init_def f Let_def split: option.splits)
qed

lemma SmtpSender_init_Nil: "SmtpSender_init [] = new_attributes"
  by (simp add: SmtpSender_init_def)

subsection \<open>Sending\<close>

lemmas send_defs =
  subject_timestamp_def set_header_fields_def attach_text_content_def
  attach_html_content_def sendmail_def set_item_def attach_def

lemma send_email_valid:
  assumes "to_addresses s \<noteq> []" "sendFrom s \<noteq> []" "smtp_server s \<noteq> []"
  shows "subject (sender (send_email smtp now ts s)) =
           (if ts then subject s @ '' '' @ strftime_Ymd_HM now else subject s)"
    and "headers (smtp_message (sender (send_email smtp now ts s))) =
           headers (smtp_message s) @
           [(''Subject'', if ts then subject s @ '' '' @ strftime_Ymd_HM now else subject s),
            (''From'', sendFrom s),
            (''To'', join '','' (to_addresses s))] @
           (if cc_addresses s = [] then [] else [(''Cc'', join '','' (cc_addresses s))])"
    and "payload (smtp_message (sender (send_email smtp now ts s))) =
           payload (smtp_message s) @
           (if text_parts s = [] then []
            else [MIMEText (join ''\<newline>'' (text_parts s)) ''plain'']) @
           (if html_parts s = [] then []
            else [MIMEText (html_header s @ ''<BR>'' @ concat (html_parts s)) ''html''])"
    and "multipart_subtype (smtp_message (sender (send_email smtp now ts s))) =
           multipart_subtype (smtp_message s)"
    and "transport_calls (send_email smtp now ts s) =
           [\<lparr>host = smtp_server s, mail_from = sendFrom s, rcpt_to = recipients s,
             message = smtp_message (sender (send_email smtp now ts s))\<rparr>]"
    and "raised (send_email smtp now ts s) =
           map_option OSError (smtp \<lparr>host = smtp_server s, mail_from = sendFrom s,
             rcpt_to = recipients s, message = smtp_message (sender (send_email smtp now ts s))\<rparr>)"
  using assms
  by (simp_all add: send_email_def send_defs Let_def join_empty_sep)

lemma send_email_keeps:
  "recipients (sender (send_email smtp now ts s)) = recipients s \<and>
   to_addresses (sender (send_email smtp now ts s)) = to_addresses s \<and>
   cc_addresses (sender (send_email smtp now ts s)) = cc_addresses s \<and>
   bcc_addresses (sender (send_email smtp now ts s)) = bcc_addresses s \<and>
   sendFrom (sender (send_email smtp now ts s)) = sendFrom s \<and>
   smtp_server (sender (send_email smtp now ts s)) = smtp_server s \<and>
   text_parts (sender (send_email smtp now ts s)) = text_parts s \<and>
   html_parts (sender (send_email smtp now ts s)) = html_parts s \<and>
   html_header (sender (send_email smtp now ts s)) = html_header s"
  by (simp add: send_email_def send_defs Let_def raise_def)

lemma send_email_invalid:
  "to_addresses s = [] \<or> sendFrom s = [] \<or> smtp_server s = [] \<Longrightarrow>
     sender (send_email smtp now ts s) = s \<and> transport_calls (send_email smtp now ts s) = []"
  by (auto simp: send_email_def raise_def)

lemma send_email_header_names:
  "set (map fst (headers (smtp_message (sender (send_email smtp now ts s))))) \<subseteq>
     set (map fst (headers (smtp_message s))) \<union> {''Subject'', ''From'', ''To'', ''Cc''}"
proof (cases "to_addresses s = [] \<or> sendFrom s = [] \<or> smtp_server s = []")
  case True
  then show ?thesis using send_email_invalid[OF True] by auto
next
  case False
  then show ?thesis by (auto simp: send_email_valid(2))
qed

subsection \<open>The timestamp\<close>

lemma digit_is_digit: "d < 10 \<Longrightarrow> is_digit (digit d)"
  unfolding digit_def is_digit_def by (rule nth_mem) simp

lemma decimal_1: "n < 10 \<Longrightarrow> decimal n = [digit n]"
  by (simp add: decimal.simps[of n])

lemma decimal_2:
  assumes "10 \<le> n" "n < 100"
  shows "decimal n = [digit (n div 10), digit (n mod 10)]"
proof -
  have "n div 10 < 10" using assms by simp
  then show ?thesis using assms by (subst decimal.simps) (simp add: decimal_1)
qed

lemma decimal_3:
  assumes "100 \<le> n" "n < 1000"
  shows "decimal n = [digit (n div 10 div 10), digit (n div 10 mod 10), digit (n mod 10)]"
proof -
  have "10 \<le> n div 10" "n div 10 < 100" using assms by simp_all
  then show ?thesis using assms by (subst decimal.simps) (simp add: decimal_2)
qed

lemma decimal_4:
  assumes "1000 \<le> n" "n < 10000"
  shows "decimal n =
           [digit (n div 10 div 10 div 10), digit (n div 10 div 10 mod 10),
            digit (n div 10 mod 10), digit (n mod 10)]"
proof -
  have "100 \<le> n div 10" "n div 10 < 1000" using assms by simp_all
  then show ?thesis using assms by (subst decimal.simps) (simp add: decimal_3)
qed

lemma zero_pad2_digits:
  "n < 100 \<Longrightarrow> zero_pad2 n = [digit (n div 10), digit (n mod 10)]"
  by (cases "n < 10") (simp_all add: zero_pad2_def decimal_1 decimal_2 digit_def)

lemma strftime_matches:
  assumes "1000 \<le> tm_year t" "tm_year t \<le> 9999" "tm_mon t < 100" "tm_mday t < 100"
    "tm_hour t < 100" "tm_min t < 100"
  shows "matches_Ymd_HM (strftime_Ymd_HM t)"
proof -
  have y: "tm_year t div 10 div 10 div 10 < 10" using assms by simp
  have d: "\<And>n::nat. n < 100 \<Longrightarrow> n div 10 < 10" by simp
  show ?thesis
    using assms y
    by (simp add: matches_Ymd_HM_def strftime_Ymd_HM_def decimal_4 zero_pad2_digits
        digit_is_digit d)
qed

subsection \<open>Parts and tokens\<close>

lemma attachments_not_text: "filter (is_text_part st) (attachments fs c) = []"
  by (cases c) (auto simp: file_part_def split: option.splits)

lemma concat_attachments_not_text:
  "filter (is_text_part st) (concat (map (attachments fs) cs)) = []"
  by (induction cs) (simp_all add: attachments_not_text)

lemma bcc_tokens_recipient_tokens: "set (bcc_tokens c) \<subseteq> set (recipient_tokens c)"
  by (cases c) simp_all

lemma concat_bcc_tokens:
  "set (concat (map bcc_tokens cs)) \<subseteq> set (concat (map recipient_tokens cs))"
  using bcc_tokens_recipient_tokens by (induction cs) auto

subsection \<open>The function send_email_message\<close>

lemma send_email_message_to:
  "address_list to_arg = None \<Longrightarrow>
     send_email_message smtp now to_arg subj html style frm cc_arg bcc_arg =
       raise (SmtpSender_init []) (Exception ''Address list for To line not recognized'')"
  by (simp add: send_email_message_def)

lemma send_email_message_cc:
  "address_list to_arg = Some tos \<Longrightarrow> cc_arg = PyOther \<Longrightarrow>
     send_email_message smtp now to_arg subj html style frm cc_arg bcc_arg =
       raise (set_to_addresses tos (SmtpSender_init []))
         (Exception ''Address list for Cc line not recognized'')"
  by (simp add: send_email_message_def address_list_def)

lemma send_email_message_bcc:
  "address_list to_arg = Some tos \<Longrightarrow> cc_arg \<noteq> PyOther \<Longrightarrow> bcc_arg = PyOther \<Longrightarrow>
     send_email_message smtp now to_arg subj html style frm cc_arg bcc_arg =
       raise (case address_list cc_arg of
                None \<Rightarrow> set_to_addresses tos (SmtpSender_init [])
              | Some ccs \<Rightarrow> set_cc_addresses ccs (set_to_addresses tos (SmtpSender_init [])))
         (Exception ''BCC address list not recognized'')"
  by (cases cc_arg) (simp_all add: send_email_message_def address_list_def)

lemma send_email_message_ok:
  "address_list to_arg = Some tos \<Longrightarrow> cc_arg \<noteq> PyOther \<Longrightarrow> bcc_arg \<noteq> PyOther \<Longrightarrow>
     send_email_message smtp now to_arg subj html style frm cc_arg bcc_arg =
       send_email smtp now True
         (add_html_text html style
           ((case frm of
               None \<Rightarrow> (\<lambda>m. m)
             | Some f \<Rightarrow> (\<lambda>m. m\<lparr>sendFrom := f\<rparr>))
              ((case address_list bcc_arg of None \<Rightarrow> (\<lambda>m. m) | Some bccs \<Rightarrow> set_bcc_addresses bccs)
                ((case address_list cc_arg of None \<Rightarrow> (\<lambda>m. m) | Some ccs \<Rightarrow> set_cc_addresses ccs)
                  (set_to_addresses tos (SmtpSender_init []))))
            \<lparr>subject := subj\<rparr>))"
  by (cases cc_arg; cases bcc_arg; cases frm)
     (simp_all add: send_email_message_def address_list_def Let_def)

section \<open>The claims\<close>

text \<open>
  Claim C1, as the code has it. \<^verbatim>\<open>attach_file\<close> attaches its part when it is called and
  \<^verbatim>\<open>send_email\<close> attaches the text and HTML parts when it sends, so the file parts come
  first. The example: one To address, one text fragment, one attached file; the message
  sent has the file part before the text part, not after it.
\<close>

theorem text_before_attachment_counterexample:
  "map_sum id (\<lambda>s. payload (smtp_message (sender (send_email smtp_ok example_now False s))))
     (run example_fs
        [Add_to_line_address ''a@x'', Add_plain_text ''hi'', Attach_file ''/tmp/report.txt'']
        (SmtpSender_init []))
   = Inr [file_part ''report.txt'' ''data'', MIMEText ''hi'' ''plain''] \<and>
   map_sum id (\<lambda>s. payload (smtp_message (sender (send_email smtp_ok example_now False s))))
     (run example_fs
        [Add_to_line_address ''a@x'', Add_plain_text ''hi'', Attach_file ''/tmp/report.txt'']
        (SmtpSender_init []))
   \<noteq> Inr [MIMEText ''hi'' ''plain'', file_part ''report.txt'' ''data'']"
  by (simp add: SmtpSender_init_Nil new_attributes_def call_defs Let_def example_fs_def
      basename_def new_MIMEMultipart_def send_email_valid(3) file_part_def)

text \<open>
  Claim C1, amended. For an instance made by the constructor and any sequence of calls, then
  sent (the three assertions passing), the transport is used once with a
  multipart/alternative message whose parts are, in this order: every attached file in the
  order of the \<^verbatim>\<open>attach_file\<close> calls, then the plain-text part if there is a text
  fragment, then the HTML part if there is an HTML fragment.
\<close>

theorem attachments_then_text_then_html:
  assumes "run fs cs (SmtpSender_init args) = Inr s"
    and "to_addresses s \<noteq> []" and "sendFrom s \<noteq> []" and "smtp_server s \<noteq> []"
  shows "map (payload \<circ> message) (transport_calls (send_email smtp now ts s)) =
           [concat (map (attachments fs) cs) @
            (if text_parts s = [] then []
             else [MIMEText (join ''\<newline>'' (text_parts s)) ''plain'']) @
            (if html_parts s = [] then []
             else [MIMEText (html_header s @ ''<BR>'' @ concat (html_parts s)) ''html''])] \<and>
         map (multipart_subtype \<circ> message) (transport_calls (send_email smtp now ts s)) =
           [''alternative'']"
proof -
  have p: "payload (smtp_message s) = concat (map (attachments fs) cs)"
    and m: "multipart_subtype (smtp_message s) = ''alternative''"
    using run_payload[OF assms(1)]
    by (simp_all add: SmtpSender_init_message new_MIMEMultipart_def)
  show ?thesis
    using assms(2-4) p m
    by (simp add: send_email_valid(5) send_email_valid(3) send_email_valid(4))
qed

theorem attachments_then_text_then_html_witness:
  "run example_fs
     [Add_to_line_address ''a@x'', Add_plain_text ''hi'', Attach_file ''/tmp/report.txt'',
      Add_html_text ''<p>hi</p>'' (Some ''css'')] (SmtpSender_init [])
   = Inr ((SmtpSender_init [])
       \<lparr>to_addresses := [''a@x''], recipients := [''a@x''],
        smtp_message := attach (file_part ''report.txt'' ''data'') (new_MIMEMultipart ''alternative''),
        html_header := ''css'', text_parts := [''hi''], html_parts := [''<p>hi</p>'']\<rparr>) \<and>
   map (payload \<circ> message) (transport_calls (send_email smtp_ok example_now False
     ((SmtpSender_init [])
       \<lparr>to_addresses := [''a@x''], recipients := [''a@x''],
        smtp_message := attach (file_part ''report.txt'' ''data'') (new_MIMEMultipart ''alternative''),
        html_header := ''css'', text_parts := [''hi''], html_parts := [''<p>hi</p>'']\<rparr>)))
   = [[file_part ''report.txt'' ''data'', MIMEText ''hi'' ''plain'',
       MIMEText ''css<BR><p>hi</p>'' ''html'']]"
proof -
  have r: "run example_fs
     [Add_to_line_address ''a@x'', Add_plain_text ''hi'', Attach_file ''/tmp/report.txt'',
      Add_html_text ''<p>hi</p>'' (Some ''css'')] (SmtpSender_init [])
   = Inr ((SmtpSender_init [])
       \<lparr>to_addresses := [''a@x''], recipients := [''a@x''],
        smtp_message := attach (file_part ''report.txt'' ''data'') (new_MIMEMultipart ''alternative''),
        html_header := ''css'', text_parts := [''hi''], html_parts := [''<p>hi</p>'']\<rparr>)"
    by (simp add: SmtpSender_init_Nil new_attributes_def call_defs Let_def example_fs_def
        basename_def)
  show ?thesis
    using r attachments_then_text_then_html[OF r, of smtp_ok example_now False]
    by (simp add: SmtpSender_init_Nil new_attributes_def example_fs_def basename_def)
qed

text \<open>
  Claim C2, as the code has it. \<^verbatim>\<open>add_html_text\<close> takes a header while the stored
  header is empty. A first call that passes the empty string as style leaves the header
  empty, and the style of the second call then replaces it.
\<close>

theorem first_style_not_kept_counterexample:
  "html_header (add_html_text ''<p>1</p>'' (Some []) (SmtpSender_init [])) = [] \<and>
   html_header (add_html_text ''<p>2</p>'' (Some ''custom'')
                  (add_html_text ''<p>1</p>'' (Some []) (SmtpSender_init []))) = ''custom'' \<and>
   html_header (add_html_text ''<p>2</p>'' (Some ''custom'')
                  (add_html_text ''<p>1</p>'' (Some []) (SmtpSender_init [])))
     \<noteq> html_header (add_html_text ''<p>1</p>'' (Some []) (SmtpSender_init []))"
  by (simp add: SmtpSender_init_Nil new_attributes_def add_html_text_def)

text \<open>
  Claim C2, amended. On a new instance, after any sequence of calls, the stylesheet header
  is the first non-empty header offered by an \<^verbatim>\<open>add_html_text\<close> call (the style passed,
  or the built-in stylesheet when no style is passed), and the empty string when no call
  offered a non-empty one. Once the header is not empty, no later \<^verbatim>\<open>add_html_text\<close>
  changes it. The message sent has one HTML part when there is an HTML fragment and none
  otherwise: the header, then \<^verbatim>\<open><BR>\<close>, then the fragments in call order with nothing
  between them.
\<close>

theorem html_header_first_nonempty:
  assumes "run fs cs (SmtpSender_init []) = Inr s"
    and "to_addresses s \<noteq> []" and "sendFrom s \<noteq> []" and "smtp_server s \<noteq> []"
  shows "html_header s =
           (case filter (\<lambda>h. h \<noteq> []) (concat (map offered_headers cs)) of
              [] \<Rightarrow> [] | h # _ \<Rightarrow> h) \<and>
         (html_header s \<noteq> [] \<longrightarrow> html_header (add_html_text t st s) = html_header s) \<and>
         map (filter (is_text_part ''html'') \<circ> payload \<circ> message)
           (transport_calls (send_email smtp now ts s)) =
           [if concat (map html_fragments cs) = [] then []
            else [MIMEText (html_header s @ ''<BR>'' @ concat (concat (map html_fragments cs)))
                    ''html'']]"
proof -
  have p: "payload (smtp_message s) = concat (map (attachments fs) cs)"
    using run_payload[OF assms(1)]
    by (simp add: SmtpSender_init_Nil new_attributes_def new_MIMEMultipart_def)
  have f: "html_parts s = concat (map html_fragments cs)"
    using run_parts[OF assms(1)] by (simp add: SmtpSender_init_Nil new_attributes_def)
  have h: "html_header s =
           (case filter (\<lambda>h. h \<noteq> []) (concat (map offered_headers cs)) of
              [] \<Rightarrow> [] | h # _ \<Rightarrow> h)"
    using run_html_header[OF assms(1)] by (simp add: SmtpSender_init_Nil new_attributes_def)
  have k: "html_header s \<noteq> [] \<Longrightarrow> html_header (add_html_text t st s) = html_header s"
    by (simp add: add_html_text_def)
  have m: "map (filter (is_text_part ''html'') \<circ> payload \<circ> message)
           (transport_calls (send_email smtp now ts s)) =
           [if concat (map html_fragments cs) = [] then []
            else [MIMEText (html_header s @ ''<BR>'' @ concat (concat (map html_fragments cs)))
                    ''html'']]"
    using assms(2-4)
    by (simp add: send_email_valid(5) send_email_valid(3) p f concat_attachments_not_text)
  show ?thesis using h k m by blast
qed

theorem html_header_first_nonempty_witness:
  "run example_fs
     [Add_to_line_address ''a@x'', Add_html_text ''<p>1</p>'' None,
      Add_html_text ''<p>2</p>'' (Some ''custom'')] (SmtpSender_init [])
   = Inr ((SmtpSender_init [])
       \<lparr>to_addresses := [''a@x''], recipients := [''a@x''],
        html_header := template_html_header, html_parts := [''<p>1</p>'', ''<p>2</p>'']\<rparr>) \<and>
   map (filter (is_text_part ''html'') \<circ> payload \<circ> message)
     (transport_calls (send_email smtp_ok example_now False
       ((SmtpSender_init [])
         \<lparr>to_addresses := [''a@x''], recipients := [''a@x''],
          html_header := template_html_header, html_parts := [''<p>1</p>'', ''<p>2</p>'']\<rparr>)))
   = [[MIMEText (template_html_header @ ''<BR><p>1</p><p>2</p>'') ''html'']] \<and>
   html_header (add_html_text ''<p>3</p>'' (Some ''other'')
     ((SmtpSender_init [])
         \<lparr>to_addresses := [''a@x''], recipients := [''a@x''],
          html_header := template_html_header, html_parts := [''<p>1</p>'', ''<p>2</p>'']\<rparr>))
   = template_html_header"
proof -
  have r: "run example_fs
     [Add_to_line_address ''a@x'', Add_html_text ''<p>1</p>'' None,
      Add_html_text ''<p>2</p>'' (Some ''custom'')] (SmtpSender_init [])
   = Inr ((SmtpSender_init [])
       \<lparr>to_addresses := [''a@x''], recipients := [''a@x''],
        html_header := template_html_header, html_parts := [''<p>1</p>'', ''<p>2</p>'']\<rparr>)"
    by (simp add: SmtpSender_init_Nil new_attributes_def call_defs Let_def
        template_html_header_nonempty)
  show ?thesis
    using r html_header_first_nonempty[OF r, where smtp = smtp_ok and now = example_now
        and ts = False and t = "''<p>3</p>''" and st = "Some ''other''"]
    by (simp add: SmtpSender_init_Nil new_attributes_def template_html_header_nonempty)
qed

text \<open>
  Claim C3. Whatever calls are made on an instance, in whatever order, the recipients
  afterwards are the recipients before followed by the tokens the calls contribute, in
  call order and with duplicates: an add call contributes the comma-split tokens of its
  argument, a property assignment the whole assigned list (which replaces the list of its
  own line), any other call nothing. Sending changes no recipient either, so nothing ever
  removes one. On a new instance the recipients are the contributed tokens alone.
\<close>

theorem recipients_accumulate:
  assumes "run fs cs s = Inr s'"
  shows "recipients s' = recipients s @ concat (map recipient_tokens cs) \<and>
         recipients (sender (send_email smtp now ts s')) = recipients s' \<and>
         to_addresses (set_to_addresses v s) = v \<and>
         cc_addresses (set_cc_addresses v s) = v \<and>
         bcc_addresses (set_bcc_addresses v s) = v \<and>
         (s = SmtpSender_init [] \<longrightarrow> recipients s' = concat (map recipient_tokens cs))"
  using run_recipients[OF assms]
  by (simp add: send_email_keeps SmtpSender_init_Nil new_attributes_def
      set_to_addresses_def set_cc_addresses_def set_bcc_addresses_def)

theorem recipients_accumulate_witness:
  "run example_fs
     [Add_to_line_address ''a@x,b@y'', Set_bcc_addresses [''h@z''], Add_cc_line_address ''c@x'',
      Set_to_addresses [''c@x''], Set_bcc_addresses [''a@x'']] (SmtpSender_init [])
   = Inr ((SmtpSender_init [])
       \<lparr>to_addresses := [''c@x''], cc_addresses := [''c@x''], bcc_addresses := [''a@x''],
        recipients := [''a@x'', ''b@y'', ''h@z'', ''c@x'', ''c@x'', ''a@x'']\<rparr>)
   \<and> recipients ((SmtpSender_init [])
       \<lparr>to_addresses := [''c@x''], cc_addresses := [''c@x''], bcc_addresses := [''a@x''],
        recipients := [''a@x'', ''b@y'', ''h@z'', ''c@x'', ''c@x'', ''a@x'']\<rparr>)
     = concat (map recipient_tokens
        [Add_to_line_address ''a@x,b@y'', Set_bcc_addresses [''h@z''], Add_cc_line_address ''c@x'',
         Set_to_addresses [''c@x''], Set_bcc_addresses [''a@x'']])"
proof -
  have r: "run example_fs
     [Add_to_line_address ''a@x,b@y'', Set_bcc_addresses [''h@z''], Add_cc_line_address ''c@x'',
      Set_to_addresses [''c@x''], Set_bcc_addresses [''a@x'']] (SmtpSender_init [])
   = Inr ((SmtpSender_init [])
       \<lparr>to_addresses := [''c@x''], cc_addresses := [''c@x''], bcc_addresses := [''a@x''],
        recipients := [''a@x'', ''b@y'', ''h@z'', ''c@x'', ''c@x'', ''a@x'']\<rparr>)"
    by (simp add: SmtpSender_init_Nil new_attributes_def call_defs Let_def)
  show ?thesis
    using r recipients_accumulate[OF r, of smtp_ok example_now False "[]"] by simp
qed

text \<open>
  Claim C4. For an instance made by the constructor and any sequence of calls, then sent
  (the three assertions passing), the header fields of the message sent are Subject, From,
  To (the To addresses joined with commas) and, only when there is a Cc address, Cc (the
  Cc addresses joined with commas): no field is named Bcc, and sending again adds none.
  The recipient list given to the transport is the recipients of the instance, which hold
  every address of the BCC list and every BCC address any call added.
\<close>

theorem no_bcc_header:
  assumes "run fs cs (SmtpSender_init args) = Inr s"
    and "to_addresses s \<noteq> []" and "sendFrom s \<noteq> []" and "smtp_server s \<noteq> []"
  shows "map (headers \<circ> message) (transport_calls (send_email smtp now ts s)) =
           [[(''Subject'', subject (sender (send_email smtp now ts s))),
             (''From'', sendFrom s),
             (''To'', join '','' (to_addresses s))] @
            (if cc_addresses s = [] then [] else [(''Cc'', join '','' (cc_addresses s))])] \<and>
         ''Bcc'' \<notin> set (map fst (headers (smtp_message (sender (send_email smtp now ts s))))) \<and>
         map rcpt_to (transport_calls (send_email smtp now ts s)) = [recipients s] \<and>
         set (bcc_addresses s) \<subseteq> set (recipients s) \<and>
         set (concat (map bcc_tokens cs)) \<subseteq> set (recipients s) \<and>
         ''Bcc'' \<notin> set (map fst (headers (smtp_message
           (sender (send_email smtp' later ts' (sender (send_email smtp now ts s)))))))"
proof -
  have h: "headers (smtp_message s) = []"
    using run_payload[OF assms(1)]
    by (simp add: SmtpSender_init_message new_MIMEMultipart_def)
  have b: "set (bcc_addresses s) \<subseteq> set (recipients s)"
    using run_bcc[OF assms(1) SmtpSender_init_bcc] .
  have c: "set (concat (map bcc_tokens cs)) \<subseteq> set (recipients s)"
    using run_recipients[OF assms(1)] concat_bcc_tokens[of cs] by auto
  have n: "''Bcc'' \<notin> set (map fst (headers (smtp_message (sender (send_email smtp now ts s)))))"
    using assms(2-4) h by (simp add: send_email_valid(2))
  have n2: "''Bcc'' \<notin> set (map fst (headers (smtp_message
           (sender (send_email smtp' later ts' (sender (send_email smtp now ts s)))))))"
    using n send_email_header_names[of smtp' later ts' "sender (send_email smtp now ts s)"]
    by auto
  show ?thesis
    using assms(2-4) h b c n2
    by (simp add: send_email_valid(5) send_email_valid(2) send_email_valid(1))
qed

theorem no_bcc_header_witness:
  "run example_fs
     [Add_to_line_address ''a@x,b@y'', Add_bcc_line_address ''h@z'', Add_cc_line_address ''c@x'',
      Set_bcc_addresses [''k@z'']] (SmtpSender_init [])
   = Inr ((SmtpSender_init [])
       \<lparr>to_addresses := [''a@x'', ''b@y''], cc_addresses := [''c@x''], bcc_addresses := [''k@z''],
        recipients := [''a@x'', ''b@y'', ''h@z'', ''c@x'', ''k@z'']\<rparr>) \<and>
   map (headers \<circ> message) (transport_calls (send_email smtp_ok example_now False
     ((SmtpSender_init [])
       \<lparr>to_addresses := [''a@x'', ''b@y''], cc_addresses := [''c@x''], bcc_addresses := [''k@z''],
        recipients := [''a@x'', ''b@y'', ''h@z'', ''c@x'', ''k@z'']\<rparr>)))
   = [[(''Subject'', []), (''From'', ''do-not-reply@somewhere.org''), (''To'', ''a@x,b@y''),
       (''Cc'', ''c@x'')]] \<and>
   map rcpt_to (transport_calls (send_email smtp_ok example_now False
     ((SmtpSender_init [])
       \<lparr>to_addresses := [''a@x'', ''b@y''], cc_addresses := [''c@x''], bcc_addresses := [''k@z''],
        recipients := [''a@x'', ''b@y'', ''h@z'', ''c@x'', ''k@z'']\<rparr>)))
   = [[''a@x'', ''b@y'', ''h@z'', ''c@x'', ''k@z'']]"
proof -
  have r: "run example_fs
     [Add_to_line_address ''a@x,b@y'', Add_bcc_line_address ''h@z'', Add_cc_line_address ''c@x'',
      Set_bcc_addresses [''k@z'']] (SmtpSender_init [])
   = Inr ((SmtpSender_init [])
       \<lparr>to_addresses := [''a@x'', ''b@y''], cc_addresses := [''c@x''], bcc_addresses := [''k@z''],
        recipients := [''a@x'', ''b@y'', ''h@z'', ''c@x'', ''k@z'']\<rparr>)"
    by (simp add: SmtpSender_init_Nil new_attributes_def call_defs Let_def)
  have s: "subject (sender (send_email smtp_ok example_now False
     ((SmtpSender_init [])
       \<lparr>to_addresses := [''a@x'', ''b@y''], cc_addresses := [''c@x''], bcc_addresses := [''k@z''],
        recipients := [''a@x'', ''b@y'', ''h@z'', ''c@x'', ''k@z'']\<rparr>))) = []"
    by (simp add: send_email_valid(1) SmtpSender_init_Nil new_attributes_def)
  show ?thesis
    using r s no_bcc_header[OF r, where smtp = smtp_ok and now = example_now and ts = False]
    by (simp add: SmtpSender_init_Nil new_attributes_def)
qed

text \<open>
  Claim C5. \<^verbatim>\<open>send_email\<close> raises one of its three plain exceptions exactly when the To
  list, the From address or the host is empty: the first empty one of the three, in this
  order, decides the message, and the three messages differ. In each of these cases the
  transport is not used. When none is empty the transport is used once, and the only
  exception that can come out is the transport's own.
\<close>

theorem validation_errors:
  "(to_addresses s = [] \<longrightarrow>
      raised (send_email smtp now ts s) =
        Some (Exception ''An SMTP message must have a To: line address to be sent.'')) \<and>
   (to_addresses s \<noteq> [] \<and> sendFrom s = [] \<longrightarrow>
      raised (send_email smtp now ts s) =
        Some (Exception ''An SMTP message must have a From: line address to be sent.'')) \<and>
   (to_addresses s \<noteq> [] \<and> sendFrom s \<noteq> [] \<and> smtp_server s = [] \<longrightarrow>
      raised (send_email smtp now ts s) =
        Some (Exception ''An SMTP message must have an SMTP host address to be sent.'')) \<and>
   (to_addresses s \<noteq> [] \<and> sendFrom s \<noteq> [] \<and> smtp_server s \<noteq> [] \<longrightarrow>
      (\<forall>m. raised (send_email smtp now ts s) \<noteq> Some (Exception m)) \<and>
      length (transport_calls (send_email smtp now ts s)) = 1) \<and>
   (to_addresses s = [] \<or> sendFrom s = [] \<or> smtp_server s = [] \<longrightarrow>
      transport_calls (send_email smtp now ts s) = []) \<and>
   distinct [''An SMTP message must have a To: line address to be sent.'',
             ''An SMTP message must have a From: line address to be sent.'',
             ''An SMTP message must have an SMTP host address to be sent.'']"
proof -
  have "to_addresses s \<noteq> [] \<Longrightarrow> sendFrom s \<noteq> [] \<Longrightarrow> smtp_server s \<noteq> [] \<Longrightarrow>
          raised (send_email smtp now ts s) \<noteq> Some (Exception m)" for m
    by (simp add: send_email_valid(6) split: option.splits)
  moreover have "to_addresses s \<noteq> [] \<Longrightarrow> sendFrom s \<noteq> [] \<Longrightarrow> smtp_server s \<noteq> [] \<Longrightarrow>
          length (transport_calls (send_email smtp now ts s)) = 1"
    by (simp add: send_email_valid(5))
  moreover have "to_addresses s = [] \<or> sendFrom s = [] \<or> smtp_server s = [] \<Longrightarrow>
      transport_calls (send_email smtp now ts s) = []"
    using send_email_invalid by blast
  ultimately show ?thesis
    by (simp add: send_email_def raise_def)
qed

theorem validation_errors_witness:
  "to_addresses (SmtpSender_init []) = [] \<and>
   raised (send_email smtp_ok example_now True (SmtpSender_init [])) =
     Some (Exception ''An SMTP message must have a To: line address to be sent.'') \<and>
   transport_calls (send_email smtp_ok example_now True (SmtpSender_init [])) = [] \<and>
   to_addresses (add_to_line_address ''a@x'' ((SmtpSender_init [])\<lparr>sendFrom := []\<rparr>)) \<noteq> [] \<and>
   sendFrom (add_to_line_address ''a@x'' ((SmtpSender_init [])\<lparr>sendFrom := []\<rparr>)) = [] \<and>
   raised (send_email smtp_ok example_now True
       (add_to_line_address ''a@x'' ((SmtpSender_init [])\<lparr>sendFrom := []\<rparr>))) =
     Some (Exception ''An SMTP message must have a From: line address to be sent.'') \<and>
   smtp_server (add_to_line_address ''a@x'' ((SmtpSender_init [])\<lparr>smtp_server := []\<rparr>)) = [] \<and>
   raised (send_email smtp_ok example_now True
       (add_to_line_address ''a@x'' ((SmtpSender_init [])\<lparr>smtp_server := []\<rparr>))) =
     Some (Exception ''An SMTP message must have an SMTP host address to be sent.'') \<and>
   to_addresses (add_to_line_address ''a@x'' (SmtpSender_init [])) \<noteq> [] \<and>
   sendFrom (add_to_line_address ''a@x'' (SmtpSender_init [])) \<noteq> [] \<and>
   smtp_server (add_to_line_address ''a@x'' (SmtpSender_init [])) \<noteq> [] \<and>
   raised (send_email smtp_down example_now True (add_to_line_address ''a@x'' (SmtpSender_init [])))
     = Some (OSError ''Connection refused'') \<and>
   length (transport_calls
     (send_email smtp_down example_now True (add_to_line_address ''a@x'' (SmtpSender_init [])))) = 1"
proof -
  have a: "to_addresses (SmtpSender_init []) = []"
    by (simp add: SmtpSender_init_Nil new_attributes_def)
  have b: "to_addresses (add_to_line_address ''a@x'' ((SmtpSender_init [])\<lparr>sendFrom := []\<rparr>)) \<noteq> []"
      "sendFrom (add_to_line_address ''a@x'' ((SmtpSender_init [])\<lparr>sendFrom := []\<rparr>)) = []"
    by (simp_all add: SmtpSender_init_Nil new_attributes_def add_to_line_address_def)
  have c: "to_addresses (add_to_line_address ''a@x'' ((SmtpSender_init [])\<lparr>smtp_server := []\<rparr>)) \<noteq> []"
      "sendFrom (add_to_line_address ''a@x'' ((SmtpSender_init [])\<lparr>smtp_server := []\<rparr>)) \<noteq> []"
      "smtp_server (add_to_line_address ''a@x'' ((SmtpSender_init [])\<lparr>smtp_server := []\<rparr>)) = []"
    by (simp_all add: SmtpSender_init_Nil new_attributes_def add_to_line_address_def)
  have d: "to_addresses (add_to_line_address ''a@x'' (SmtpSender_init [])) \<noteq> []"
      "sendFrom (add_to_line_address ''a@x'' (SmtpSender_init [])) \<noteq> []"
      "smtp_server (add_to_line_address ''a@x'' (SmtpSender_init [])) \<noteq> []"
    by (simp_all add: SmtpSender_init_Nil new_attributes_def add_to_line_address_def)
  have e: "raised (send_email smtp_down example_now True
             (add_to_line_address ''a@x'' (SmtpSender_init []))) = Some (OSError ''Connection refused'')"
    using d by (simp add: send_email_valid(6) smtp_down_def)
  show ?thesis
    using a b c d e
      validation_errors[of "SmtpSender_init []" smtp_ok example_now True]
      validation_errors[of "add_to_line_address ''a@x'' ((SmtpSender_init [])\<lparr>sendFrom := []\<rparr>)"
        smtp_ok example_now True]
      validation_errors[of "add_to_line_address ''a@x'' ((SmtpSender_init [])\<lparr>smtp_server := []\<rparr>)"
        smtp_ok example_now True]
      validation_errors[of "add_to_line_address ''a@x'' (SmtpSender_init [])"
        smtp_down example_now True]
    by simp
qed

text \<open>
  Claim C6. When the three assertions pass, \<^verbatim>\<open>send_email\<close> with the timestamp flag set
  leaves the subject as the subject before, a space, and the local time formatted by
  \<^verbatim>\<open>'%Y-%m-%d %H:%M'\<close>; sending again with the flag set appends a second space and
  timestamp; with the flag unset the subject stays as it was. For a local time with a
  four-digit year the timestamp has the shape \<^verbatim>\<open>YYYY-MM-DD HH:MM\<close>.
\<close>

theorem subject_timestamp_appended:
  assumes "to_addresses s \<noteq> []" and "sendFrom s \<noteq> []" and "smtp_server s \<noteq> []"
  shows "subject (sender (send_email smtp now True s)) = subject s @ '' '' @ strftime_Ymd_HM now \<and>
         subject (sender (send_email smtp now False s)) = subject s \<and>
         subject (sender (send_email smtp' later True (sender (send_email smtp now True s)))) =
           subject s @ '' '' @ strftime_Ymd_HM now @ '' '' @ strftime_Ymd_HM later \<and>
         (1000 \<le> tm_year now \<and> tm_year now \<le> 9999 \<and> 1 \<le> tm_mon now \<and> tm_mon now \<le> 12 \<and>
          1 \<le> tm_mday now \<and> tm_mday now \<le> 31 \<and> tm_hour now \<le> 23 \<and> tm_min now \<le> 59
          \<longrightarrow> matches_Ymd_HM (strftime_Ymd_HM now))"
proof -
  have v: "to_addresses (sender (send_email smtp now True s)) \<noteq> []"
    "sendFrom (sender (send_email smtp now True s)) \<noteq> []"
    "smtp_server (sender (send_email smtp now True s)) \<noteq> []"
    using assms by (simp_all add: send_email_keeps)
  have a: "subject (sender (send_email smtp now True s)) = subject s @ '' '' @ strftime_Ymd_HM now"
    using assms by (simp add: send_email_valid(1))
  have b: "subject (sender (send_email smtp now False s)) = subject s"
    using assms by (simp add: send_email_valid(1))
  have c: "subject (sender (send_email smtp' later True (sender (send_email smtp now True s)))) =
           subject s @ '' '' @ strftime_Ymd_HM now @ '' '' @ strftime_Ymd_HM later"
    using send_email_valid(1)[OF v, of smtp' later True] a by simp
  have d: "1000 \<le> tm_year now \<and> tm_year now \<le> 9999 \<and> 1 \<le> tm_mon now \<and> tm_mon now \<le> 12 \<and>
          1 \<le> tm_mday now \<and> tm_mday now \<le> 31 \<and> tm_hour now \<le> 23 \<and> tm_min now \<le> 59
          \<Longrightarrow> matches_Ymd_HM (strftime_Ymd_HM now)"
    by (rule strftime_matches) simp_all
  show ?thesis using a b c d by blast
qed

theorem subject_timestamp_appended_witness:
  "to_addresses (add_to_line_address ''a@x'' ((SmtpSender_init [])\<lparr>subject := ''Report''\<rparr>)) \<noteq> [] \<and>
   sendFrom (add_to_line_address ''a@x'' ((SmtpSender_init [])\<lparr>subject := ''Report''\<rparr>)) \<noteq> [] \<and>
   smtp_server (add_to_line_address ''a@x'' ((SmtpSender_init [])\<lparr>subject := ''Report''\<rparr>)) \<noteq> [] \<and>
   subject (sender (send_email smtp_ok example_now True
     (add_to_line_address ''a@x'' ((SmtpSender_init [])\<lparr>subject := ''Report''\<rparr>))))
     = ''Report 2024-03-09 07:05'' \<and>
   subject (sender (send_email smtp_ok example_later True (sender (send_email smtp_ok example_now True
     (add_to_line_address ''a@x'' ((SmtpSender_init [])\<lparr>subject := ''Report''\<rparr>))))))
     = ''Report 2024-03-09 07:05 2024-03-09 07:06'' \<and>
   matches_Ymd_HM (strftime_Ymd_HM example_now)"
proof -
  have v: "to_addresses (add_to_line_address ''a@x'' ((SmtpSender_init [])\<lparr>subject := ''Report''\<rparr>)) \<noteq> []"
    "sendFrom (add_to_line_address ''a@x'' ((SmtpSender_init [])\<lparr>subject := ''Report''\<rparr>)) \<noteq> []"
    "smtp_server (add_to_line_address ''a@x'' ((SmtpSender_init [])\<lparr>subject := ''Report''\<rparr>)) \<noteq> []"
    by (simp_all add: SmtpSender_init_Nil new_attributes_def add_to_line_address_def)
  have n: "strftime_Ymd_HM example_now = ''2024-03-09 07:05''"
    "strftime_Ymd_HM example_later = ''2024-03-09 07:06''"
    by (simp_all add: strftime_Ymd_HM_def example_now_def example_later_def decimal_4
        zero_pad2_digits digit_def)
  have t: "1000 \<le> tm_year example_now \<and> tm_year example_now \<le> 9999 \<and> 1 \<le> tm_mon example_now \<and>
      tm_mon example_now \<le> 12 \<and> 1 \<le> tm_mday example_now \<and> tm_mday example_now \<le> 31 \<and>
      tm_hour example_now \<le> 23 \<and> tm_min example_now \<le> 59"
    by (simp add: example_now_def)
  have s: "subject (add_to_line_address ''a@x'' ((SmtpSender_init [])\<lparr>subject := ''Report''\<rparr>)) = ''Report''"
    by (simp add: add_to_line_address_def)
  show ?thesis
    using v t subject_timestamp_appended[OF v, where smtp = smtp_ok and now = example_now
        and smtp' = smtp_ok and later = example_later]
    by (simp add: n s)
qed

text \<open>
  Claim C7. On a new instance, after any sequence of calls, the message sent (the three
  assertions passing) has exactly one plain-text part when \<^verbatim>\<open>add_plain_text\<close> was called,
  holding the fragments in call order joined with a newline, and no plain-text part when
  it was never called.
\<close>

theorem one_plain_text_part:
  assumes "run fs cs (SmtpSender_init []) = Inr s"
    and "to_addresses s \<noteq> []" and "sendFrom s \<noteq> []" and "smtp_server s \<noteq> []"
  shows "map (filter (is_text_part ''plain'') \<circ> payload \<circ> message)
           (transport_calls (send_email smtp now ts s)) =
           [if concat (map plain_fragments cs) = [] then []
            else [MIMEText (join ''\<newline>'' (concat (map plain_fragments cs))) ''plain'']]"
proof -
  have p: "payload (smtp_message s) = concat (map (attachments fs) cs)"
    using run_payload[OF assms(1)]
    by (simp add: SmtpSender_init_Nil new_attributes_def new_MIMEMultipart_def)
  have t: "text_parts s = concat (map plain_fragments cs)"
    using run_parts[OF assms(1)] by (simp add: SmtpSender_init_Nil new_attributes_def)
  show ?thesis
    using assms(2-4)
    by (simp add: send_email_valid(5) send_email_valid(3) p t concat_attachments_not_text)
qed

theorem one_plain_text_part_witness:
  "run example_fs
     [Add_to_line_address ''a@x'', Add_plain_text ''A'', Attach_file ''/tmp/report.txt'',
      Add_plain_text ''B''] (SmtpSender_init [])
   = Inr ((SmtpSender_init [])
       \<lparr>to_addresses := [''a@x''], recipients := [''a@x''],
        smtp_message := attach (file_part ''report.txt'' ''data'') (new_MIMEMultipart ''alternative''),
        text_parts := [''A'', ''B'']\<rparr>) \<and>
   map (filter (is_text_part ''plain'') \<circ> payload \<circ> message)
     (transport_calls (send_email smtp_ok example_now False
       ((SmtpSender_init [])
         \<lparr>to_addresses := [''a@x''], recipients := [''a@x''],
          smtp_message := attach (file_part ''report.txt'' ''data'') (new_MIMEMultipart ''alternative''),
          text_parts := [''A'', ''B'']\<rparr>)))
   = [[MIMEText ''A\<newline>B'' ''plain'']]"
proof -
  have r: "run example_fs
     [Add_to_line_address ''a@x'', Add_plain_text ''A'', Attach_file ''/tmp/report.txt'',
      Add_plain_text ''B''] (SmtpSender_init [])
   = Inr ((SmtpSender_init [])
       \<lparr>to_addresses := [''a@x''], recipients := [''a@x''],
        smtp_message := attach (file_part ''report.txt'' ''data'') (new_MIMEMultipart ''alternative''),
        text_parts := [''A'', ''B'']\<rparr>)"
    by (simp add: SmtpSender_init_Nil new_attributes_def call_defs Let_def example_fs_def
        basename_def)
  show ?thesis
    using r one_plain_text_part[OF r, of smtp_ok example_now False]
    by (simp add: SmtpSender_init_Nil new_attributes_def)
qed

text \<open>
  Claim C8, as the code has it. \<^verbatim>\<open>None\<close> is neither a string nor a list, and it is
  the default of \<^verbatim>\<open>cc_addresses\<close> and \<^verbatim>\<open>bcc_addresses\<close>: the function tests the type
  of these two arguments only when they are not \<^verbatim>\<open>None\<close>. The example: a To string, Cc
  and BCC both \<^verbatim>\<open>None\<close>; nothing is raised and the transport is used.
\<close>

theorem none_address_argument_counterexample:
  "address_list PyNone = None \<and>
   raised (send_email_message smtp_ok example_now (PyStr ''a@x'') ''S'' ''h'' None None
             PyNone PyNone) = None \<and>
   map rcpt_to (transport_calls (send_email_message smtp_ok example_now (PyStr ''a@x'') ''S'' ''h''
             None None PyNone PyNone)) = [[''a@x'']]"
proof -
  have a: "address_list (PyStr ''a@x'') = Some [''a@x'']" "address_list PyNone = None"
    by (simp_all add: address_list_def)
  have n: "PyNone \<noteq> PyOther" by simp
  show ?thesis
    using a(2)
    by (simp add: send_email_message_ok[OF a(1) n n] a(2) SmtpSender_init_Nil new_attributes_def
        call_defs Let_def send_email_valid(5) send_email_valid(6) smtp_ok_def)
qed

text \<open>
  Claim C8, amended. \<^verbatim>\<open>send_email_message\<close> raises before it uses the transport when the
  To argument is neither a string nor a list, or when a Cc or BCC argument is not
  \<^verbatim>\<open>None\<close> and is neither a string nor a list; a Cc or BCC argument that is \<^verbatim>\<open>None\<close>
  is passed over. The first such argument, in the order To, Cc, BCC, decides the message,
  and the three messages differ. A string argument becomes the list of its comma-split
  tokens and a list argument is taken as it is: these are the address lists of the
  message built.
\<close>

theorem unrecognised_address_argument:
  "(to_arg = PyNone \<or> to_arg = PyOther \<longrightarrow>
      raised (send_email_message smtp now to_arg subj html style frm cc_arg bcc_arg) =
        Some (Exception ''Address list for To line not recognized'') \<and>
      transport_calls (send_email_message smtp now to_arg subj html style frm cc_arg bcc_arg) = []) \<and>
   (address_list to_arg \<noteq> None \<and> cc_arg = PyOther \<longrightarrow>
      raised (send_email_message smtp now to_arg subj html style frm cc_arg bcc_arg) =
        Some (Exception ''Address list for Cc line not recognized'') \<and>
      transport_calls (send_email_message smtp now to_arg subj html style frm cc_arg bcc_arg) = []) \<and>
   (address_list to_arg \<noteq> None \<and> cc_arg \<noteq> PyOther \<and> bcc_arg = PyOther \<longrightarrow>
      raised (send_email_message smtp now to_arg subj html style frm cc_arg bcc_arg) =
        Some (Exception ''BCC address list not recognized'') \<and>
      transport_calls (send_email_message smtp now to_arg subj html style frm cc_arg bcc_arg) = []) \<and>
   distinct [''Address list for To line not recognized'',
             ''Address list for Cc line not recognized'',
             ''BCC address list not recognized''] \<and>
   address_list (PyStr a) = Some (split CHR '','' a) \<and>
   address_list (PyList l) = Some l \<and>
   (address_list to_arg = Some tos \<longrightarrow>
      to_addresses (sender (send_email_message smtp now to_arg subj html style frm cc_arg bcc_arg))
        = tos) \<and>
   (address_list to_arg = Some tos \<and> address_list cc_arg = Some ccs \<longrightarrow>
      cc_addresses (sender (send_email_message smtp now to_arg subj html style frm cc_arg bcc_arg))
        = ccs) \<and>
   (address_list to_arg = Some tos \<and> cc_arg \<noteq> PyOther \<and> address_list bcc_arg = Some bccs \<longrightarrow>
      bcc_addresses (sender (send_email_message smtp now to_arg subj html style frm cc_arg bcc_arg))
        = bccs)"
proof -
  let ?R = "send_email_message smtp now to_arg subj html style frm cc_arg bcc_arg"
  have n: "to_arg = PyNone \<or> to_arg = PyOther \<Longrightarrow> address_list to_arg = None"
    by (auto simp: address_list_def)
  have 1: "to_arg = PyNone \<or> to_arg = PyOther \<Longrightarrow>
      raised ?R = Some (Exception ''Address list for To line not recognized'') \<and>
      transport_calls ?R = []"
    using send_email_message_to[OF n] by (simp add: raise_def)
  have 2: "address_list to_arg \<noteq> None \<Longrightarrow> cc_arg = PyOther \<Longrightarrow>
      raised ?R = Some (Exception ''Address list for Cc line not recognized'') \<and>
      transport_calls ?R = []"
    using send_email_message_cc[of to_arg _ cc_arg] by (auto simp: raise_def)
  have 3: "address_list to_arg \<noteq> None \<Longrightarrow> cc_arg \<noteq> PyOther \<Longrightarrow> bcc_arg = PyOther \<Longrightarrow>
      raised ?R = Some (Exception ''BCC address list not recognized'') \<and>
      transport_calls ?R = []"
    using send_email_message_bcc[of to_arg _ cc_arg bcc_arg] by (auto simp: raise_def)
  have 4: "address_list (PyStr a) = Some (split CHR '','' a)" "address_list (PyList l) = Some l"
    by (simp_all add: address_list_def)
  have keep: "to_addresses (set_cc_addresses v m) = to_addresses m"
    "to_addresses (set_bcc_addresses v m) = to_addresses m"
    "cc_addresses (set_bcc_addresses v m) = cc_addresses m"
    "to_addresses (set_to_addresses v m) = v"
    "cc_addresses (set_cc_addresses v m) = v"
    "bcc_addresses (set_bcc_addresses v m) = v"
    "to_addresses (add_html_text h st m) = to_addresses m"
    "cc_addresses (add_html_text h st m) = cc_addresses m"
    "bcc_addresses (add_html_text h st m) = bcc_addresses m" for v m h st
    by (simp_all add: call_defs Let_def split: option.splits)
  have 5: "to_addresses (sender ?R) = tos" if t: "address_list to_arg = Some tos"
  proof (cases "cc_arg = PyOther")
    case True
    then show ?thesis using send_email_message_cc[OF t True] by (simp add: raise_def keep)
  next
    case c: False
    show ?thesis
    proof (cases "bcc_arg = PyOther")
      case True
      then show ?thesis using send_email_message_bcc[OF t c True]
        by (simp add: raise_def keep split: option.splits)
    next
      case False
      then show ?thesis using send_email_message_ok[OF t c False]
        by (simp add: send_email_keeps keep split: option.splits)
    qed
  qed
  have 6: "cc_addresses (sender ?R) = ccs"
    if t: "address_list to_arg = Some tos" and ccs: "address_list cc_arg = Some ccs"
  proof -
    have c: "cc_arg \<noteq> PyOther" using ccs by (auto simp: address_list_def)
    show ?thesis
    proof (cases "bcc_arg = PyOther")
      case True
      then show ?thesis using send_email_message_bcc[OF t c True] ccs
        by (simp add: raise_def keep)
    next
      case False
      then show ?thesis using send_email_message_ok[OF t c False] ccs
        by (simp add: send_email_keeps keep split: option.splits)
    qed
  qed
  have 7: "bcc_addresses (sender ?R) = bccs"
    if t: "address_list to_arg = Some tos" and c: "cc_arg \<noteq> PyOther"
      and bccs: "address_list bcc_arg = Some bccs"
  proof -
    have b: "bcc_arg \<noteq> PyOther" using bccs by (auto simp: address_list_def)
    show ?thesis using send_email_message_ok[OF t c b] bccs
      by (simp add: send_email_keeps keep split: option.splits)
  qed
  show ?thesis using 1 2 3 4 5 6 7 by simp
qed

theorem unrecognised_address_argument_witness:
  "raised (send_email_message smtp_ok example_now PyOther ''Subj'' ''<p>hi</p>'' None None
            PyNone PyNone)
     = Some (Exception ''Address list for To line not recognized'') \<and>
   transport_calls (send_email_message smtp_ok example_now PyOther ''Subj'' ''<p>hi</p>'' None None
            PyNone PyNone) = [] \<and>
   raised (send_email_message smtp_ok example_now (PyStr ''a@x,b@y'') ''Subj'' ''<p>hi</p>'' None None
            PyOther PyNone)
     = Some (Exception ''Address list for Cc line not recognized'') \<and>
   raised (send_email_message smtp_ok example_now (PyStr ''a@x,b@y'') ''Subj'' ''<p>hi</p>'' None None
            (PyList [''c@x'']) PyOther)
     = Some (Exception ''BCC address list not recognized'') \<and>
   to_addresses (sender (send_email_message smtp_ok example_now (PyStr ''a@x,b@y'') ''Subj''
            ''<p>hi</p>'' None None (PyList [''c@x'']) (PyStr ''h@z'')))
     = [''a@x'', ''b@y''] \<and>
   cc_addresses (sender (send_email_message smtp_ok example_now (PyStr ''a@x,b@y'') ''Subj''
            ''<p>hi</p>'' None None (PyList [''c@x'']) (PyStr ''h@z'')))
     = [''c@x''] \<and>
   bcc_addresses (sender (send_email_message smtp_ok example_now (PyStr ''a@x,b@y'') ''Subj''
            ''<p>hi</p>'' None None (PyList [''c@x'']) (PyStr ''h@z'')))
     = [''h@z'']"
proof -
  have a: "address_list (PyStr ''a@x,b@y'') = Some [''a@x'', ''b@y'']"
    "address_list (PyList [''c@x'']) = Some [''c@x'']"
    "address_list (PyStr ''h@z'') = Some [''h@z'']"
    by (simp_all add: address_list_def)
  show ?thesis
    using a
      unrecognised_address_argument[where to_arg = PyOther and cc_arg = PyNone and bcc_arg = PyNone
        and smtp = smtp_ok and now = example_now and subj = "''Subj''" and html = "''<p>hi</p>''"
        and style = None and frm = None]
      unrecognised_address_argument[where to_arg = "PyStr ''a@x,b@y''" and cc_arg = PyOther
        and bcc_arg = PyNone
        and smtp = smtp_ok and now = example_now and subj = "''Subj''" and html = "''<p>hi</p>''"
        and style = None and frm = None]
      unrecognised_address_argument[where to_arg = "PyStr ''a@x,b@y''" and cc_arg = "PyList [''c@x'']"
        and bcc_arg = PyOther
        and smtp = smtp_ok and now = example_now and subj = "''Subj''" and html = "''<p>hi</p>''"
        and style = None and frm = None]
      unrecognised_address_argument[where to_arg = "PyStr ''a@x,b@y''" and cc_arg = "PyList [''c@x'']"
        and bcc_arg = "PyStr ''h@z''" and tos = "[''a@x'', ''b@y'']" and ccs = "[''c@x'']"
        and bccs = "[''h@z'']"
        and smtp = smtp_ok and now = example_now and subj = "''Subj''" and html = "''<p>hi</p>''"
        and style = None and frm = None]
    by simp
qed

text \<open>
  Claim C9. When one of the three assertions of \<^verbatim>\<open>send_email\<close> fails, the call raises and
  leaves the object as it was: the subject has no timestamp appended and the message has
  no new header field, whatever the timestamp flag is.
\<close>

theorem validation_error_leaves_state:
  assumes "to_addresses s = [] \<or> sendFrom s = [] \<or> smtp_server s = []"
  shows "sender (send_email smtp now ts s) = s \<and>
         subject (sender (send_email smtp now ts s)) = subject s \<and>
         headers (smtp_message (sender (send_email smtp now ts s))) = headers (smtp_message s) \<and>
         raised (send_email smtp now ts s) \<noteq> None"
  using assms by (auto simp: send_email_def raise_def)

theorem validation_error_leaves_state_witness:
  "(to_addresses (SmtpSender_init [''txt'', ''html'', ''subj'']) = [] \<or>
    sendFrom (SmtpSender_init [''txt'', ''html'', ''subj'']) = [] \<or>
    smtp_server (SmtpSender_init [''txt'', ''html'', ''subj'']) = []) \<and>
   sender (send_email smtp_ok example_now True (SmtpSender_init [''txt'', ''html'', ''subj'']))
     = SmtpSender_init [''txt'', ''html'', ''subj''] \<and>
   subject (sender (send_email smtp_ok example_now True (SmtpSender_init [''txt'', ''html'', ''subj''])))
     = ''subj''"
proof -
  have a: "to_addresses (SmtpSender_init [''txt'', ''html'', ''subj'']) = []"
    and b: "subject (SmtpSender_init [''txt'', ''html'', ''subj'']) = ''subj''"
    by (simp_all add: SmtpSender_init_def new_attributes_def upt_rec numeral_eq_Suc
        add_plain_text_def add_html_text_def)
  show ?thesis
    using a b validation_error_leaves_state[of "SmtpSender_init [''txt'', ''html'', ''subj'']"
        smtp_ok example_now True]
    by simp
qed

text \<open>
  Claim C10. Adding the empty string as a To address appends one empty token to the To
  list and to the recipients; the To list is then not empty, so a following
  \<^verbatim>\<open>send_email\<close> does not raise the To-line exception, and reaches the transport when the
  From address and the host are set. Adding the empty string as a Cc or BCC address
  appends one empty token to that list and to the recipients in the same way.
\<close>

theorem empty_address_token:
  "to_addresses (add_to_line_address [] s) = to_addresses s @ [[]] \<and>
   recipients (add_to_line_address [] s) = recipients s @ [[]] \<and>
   to_addresses (add_to_line_address [] s) \<noteq> [] \<and>
   raised (send_email smtp now ts (add_to_line_address [] s)) \<noteq>
     Some (Exception ''An SMTP message must have a To: line address to be sent.'') \<and>
   cc_addresses (add_cc_line_address [] s) = cc_addresses s @ [[]] \<and>
   recipients (add_cc_line_address [] s) = recipients s @ [[]] \<and>
   bcc_addresses (add_bcc_line_address [] s) = bcc_addresses s @ [[]] \<and>
   recipients (add_bcc_line_address [] s) = recipients s @ [[]] \<and>
   (sendFrom s \<noteq> [] \<and> smtp_server s \<noteq> [] \<longrightarrow>
      length (transport_calls (send_email smtp now ts (add_to_line_address [] s))) = 1)"
proof -
  have "raised (send_email smtp now ts (add_to_line_address [] s)) \<noteq>
     Some (Exception ''An SMTP message must have a To: line address to be sent.'')"
    by (simp add: send_email_def raise_def sendmail_def Let_def add_to_line_address_def
        split: option.splits)
  moreover have "sendFrom s \<noteq> [] \<Longrightarrow> smtp_server s \<noteq> [] \<Longrightarrow>
      length (transport_calls (send_email smtp now ts (add_to_line_address [] s))) = 1"
    by (simp add: send_email_valid(5) add_to_line_address_def)
  ultimately show ?thesis
    by (simp add: add_to_line_address_def add_cc_line_address_def add_bcc_line_address_def)
qed

theorem empty_address_token_witness:
  "sendFrom (SmtpSender_init []) \<noteq> [] \<and> smtp_server (SmtpSender_init []) \<noteq> [] \<and>
   to_addresses (add_to_line_address [] (SmtpSender_init [])) = [[]] \<and>
   recipients (add_to_line_address [] (SmtpSender_init [])) = [[]] \<and>
   length (transport_calls
     (send_email smtp_ok example_now False (add_to_line_address [] (SmtpSender_init [])))) = 1"
proof -
  have a: "sendFrom (SmtpSender_init []) \<noteq> []" "smtp_server (SmtpSender_init []) \<noteq> []"
      "to_addresses (SmtpSender_init []) = []" "recipients (SmtpSender_init []) = []"
    by (simp_all add: SmtpSender_init_Nil new_attributes_def)
  show ?thesis
    using a empty_address_token[of "SmtpSender_init []" smtp_ok example_now False] by simp
qed

end
